theory Spec2Isabelle
  imports Main
begin

section \<open>JavaScript values the entry point works with\<close>

text \<open>
  The entry script reads every parameter with
  \<^verbatim>\<open>app.node.tryGetContext(k) || process.env.K || default\<close>.
  A context or environment value is a string or \<^verbatim>\<open>undefined\<close>, modelled as
  \<open>string option\<close>. JavaScript's \<^verbatim>\<open>||\<close> returns its left operand when that is
  truthy and its right operand otherwise; \<^verbatim>\<open>undefined\<close> and the empty string are the
  falsy values of this type.
\<close>

type_synonym jsstr = "string option"

definition truthy :: "jsstr \<Rightarrow> bool" where
  "truthy v = (case v of None \<Rightarrow> False | Some s \<Rightarrow> s \<noteq> [])"

definition jsOr :: "jsstr \<Rightarrow> jsstr \<Rightarrow> jsstr" where
  "jsOr a b = (if truthy a then a else b)"

text \<open>\<^verbatim>\<open>a || 'literal'\<close>: the result is always a string.\<close>

definition orDefault :: "jsstr \<Rightarrow> string \<Rightarrow> string" where
  "orDefault a d = (case a of None \<Rightarrow> d | Some s \<Rightarrow> if s \<noteq> [] then s else d)"

text \<open>What a template literal renders for a value: \<^verbatim>\<open>`${undefined}`\<close> is \<^verbatim>\<open>undefined\<close>.\<close>

definition jsString :: "jsstr \<Rightarrow> string" where
  "jsString v = (case v of None \<Rightarrow> ''undefined'' | Some s \<Rightarrow> s)"

text \<open>
  A number as \<^verbatim>\<open>parseInt\<close> returns it: \<open>NaN\<close> or an integer. (JavaScript rounds
  integers beyond \<open>2^53\<close> to a double; the model keeps them exact.)
\<close>

datatype jsnum = NaN | Num int

definition isWhiteSpace :: "char \<Rightarrow> bool" where
  "isWhiteSpace c = ((of_char c :: nat) \<in> {9, 10, 11, 12, 13, 32})"

definition digitValue :: "char \<Rightarrow> nat option" where
  "digitValue c =
     (let n = (of_char c :: nat) in
      if 48 \<le> n \<and> n \<le> 57 then Some (n - 48)
      else if 97 \<le> n \<and> n \<le> 122 then Some (n - 87)
      else if 65 \<le> n \<and> n \<le> 90 then Some (n - 55)
      else None)"

definition isRadixDigit :: "nat \<Rightarrow> char \<Rightarrow> bool" where
  "isRadixDigit R c = (case digitValue c of None \<Rightarrow> False | Some v \<Rightarrow> v < R)"

definition digitsValue :: "nat \<Rightarrow> string \<Rightarrow> nat" where
  "digitsValue R Z = foldl (\<lambda>a c. a * R + (case digitValue c of None \<Rightarrow> 0 | Some v \<Rightarrow> v)) 0 Z"

text \<open>
  \<^verbatim>\<open>parseInt(string)\<close> with no radix (ECMAScript): skip leading white space, read
  an optional sign, strip a \<^verbatim>\<open>0x\<close> prefix (radix 16, otherwise 10), and take the longest
  prefix of digits; with no digit the result is \<open>NaN\<close>. Text after the digits is ignored.
\<close>

definition parseInt :: "string \<Rightarrow> jsnum" where
  "parseInt inputString =
     (let S = dropWhile isWhiteSpace inputString;
          sign = (case S of c # _ \<Rightarrow> if c = CHR ''-'' then (- 1 :: int) else 1 | [] \<Rightarrow> 1);
          S1 = (case S of c # r \<Rightarrow> if c = CHR ''+'' \<or> c = CHR ''-'' then r else S | [] \<Rightarrow> S);
          hex = (take 2 S1 = ''0x'' \<or> take 2 S1 = ''0X'');
          R = (if hex then 16 else 10);
          S2 = (if hex then drop 2 S1 else S1);
          Z = takeWhile (isRadixDigit R) S2
      in if Z = [] then NaN else Num (sign * int (digitsValue R Z)))"

text \<open>\<^verbatim>\<open>n || 3\<close> on a number: \<open>NaN\<close> and \<open>0\<close> are falsy.\<close>

definition numOrDefault :: "jsnum option \<Rightarrow> int \<Rightarrow> int" where
  "numOrDefault v d =
     (case v of None \<Rightarrow> d | Some NaN \<Rightarrow> d | Some (Num n) \<Rightarrow> if n = 0 then d else n)"

text \<open>Decimal rendering of a natural number, as a template literal renders \<^verbatim>\<open>Date.now()\<close>.\<close>

definition digitChar :: "nat \<Rightarrow> char" where
  "digitChar n = ''0123456789'' ! n"

function showNat :: "nat \<Rightarrow> string" where
  "showNat n = (if n < 10 then [digitChar n] else showNat (n div 10) @ [digitChar (n mod 10)])"
  by pat_completeness auto
termination
  by (relation "measure id") auto

definition showInt :: "int \<Rightarrow> string" where
  "showInt i = (if i < 0 then CHR ''-'' # showNat (nat (- i)) else showNat (nat i))"

text \<open>\<^verbatim>\<open>toLowerCase\<close> on the ASCII letters (stack names are ASCII identifiers).\<close>

definition toLowerCase :: "string \<Rightarrow> string" where
  "toLowerCase s =
     map (\<lambda>c. let n = (of_char c :: nat) in if 65 \<le> n \<and> n \<le> 90 then char_of (n + 32) else c) s"

section \<open>Inputs\<close>

text \<open>
  \<open>context\<close> is \<^verbatim>\<open>app.node.tryGetContext\<close>, \<open>env\<close> is \<^verbatim>\<open>process.env\<close>.
  The stacks also read the clock and the random generator: \<open>dateNow\<close> is the value
  of \<^verbatim>\<open>Date.now()\<close>, \<open>random1\<close> and \<open>random2\<close> are the two values of
  \<^verbatim>\<open>Math.random().toString(36).substring(2, 15)\<close>, in call order.
\<close>

record rawInputs =
  "context" :: "string \<Rightarrow> jsstr"
  env :: "string \<Rightarrow> jsstr"

record host =
  dateNow :: nat
  random1 :: string
  random2 :: string

datatype error = Error string

section \<open>Declarations\<close>

text \<open>
  A property value is a literal string, a token (an attribute of another construct that
  is only known at deployment, as \<^verbatim>\<open>this.efsFileSystem.fileSystemId\<close>), or a template
  literal that joins the two.
\<close>

datatype pval = Lit string | Tok string string | Cat pval pval

fun refs :: "pval \<Rightarrow> string list" where
  "refs (Lit s) = []"
| "refs (Tok c a) = [c]"
| "refs (Cat a b) = refs a @ refs b"

text \<open>
  Every construct a stack instantiates is one declaration, in the order the constructor
  creates them. \<open>logicalName\<close> is the construct id as written in the source, prefixed
  with the id of the cluster when the construct is created through the cluster
  (\<^verbatim>\<open>cluster.addManifest\<close>, \<^verbatim>\<open>addHelmChart\<close>, \<^verbatim>\<open>addServiceAccount\<close>,
  \<^verbatim>\<open>addFargateProfile\<close>). \<open>payload\<close> holds the properties handed to the construct
  that identify it or that are computed from the inputs, keyed by their path; literal
  properties that no input reaches (labels, probes, resource limits, container scripts) are
  not listed. \<open>dependsOn\<close> lists the logical names of the constructs the declaration
  reads: the construct objects it is handed, then the tokens of its payload.
\<close>

datatype construct =
    Vpc | FlowLog | FileSystem | AccessPoint | SecurityGroupRule | KubectlLayer
  | FargateCluster | ImportedCluster | Certificate | ImportedCertificate | ImportedHostedZone
  | UserPool | UserPoolClient | CfnUserPoolGroup | UserPoolResourceServer | UserPoolDomain
  | CfnUserPoolUser | CfnUserPoolUserToGroupAttachment | CfnAddon | HelmChart
  | ServiceAccount | FargateProfile | Role | KubernetesManifest | CfnOutput

record decl =
  logicalName :: string
  rtype :: construct
  payload :: "(string \<times> pval) list"
  dependsOn :: "string list"

definition mk :: "string \<Rightarrow> construct \<Rightarrow> string list \<Rightarrow> (string \<times> pval) list \<Rightarrow> decl" where
  "mk n t objs p =
     \<lparr>logicalName = n, rtype = t, payload = p, dependsOn = objs @ concat (map (refs \<circ> snd) p)\<rparr>"

definition inCluster :: "string \<Rightarrow> string \<Rightarrow> string" where
  "inCluster cluster n = cluster @ ''/'' @ n"

text \<open>The methods of a cluster that create a construct in it.\<close>

definition addManifest :: "string \<Rightarrow> string \<Rightarrow> (string \<times> pval) list \<Rightarrow> decl" where
  "addManifest cluster n p = mk (inCluster cluster n) KubernetesManifest [cluster] p"

definition addHelmChart :: "string \<Rightarrow> string \<Rightarrow> (string \<times> pval) list \<Rightarrow> decl" where
  "addHelmChart cluster n p = mk (inCluster cluster n) HelmChart [cluster] p"

definition addServiceAccount :: "string \<Rightarrow> string \<Rightarrow> (string \<times> pval) list \<Rightarrow> decl" where
  "addServiceAccount cluster n p = mk (inCluster cluster n) ServiceAccount [cluster] p"

definition addFargateProfile :: "string \<Rightarrow> string \<Rightarrow> (string \<times> pval) list \<Rightarrow> decl" where
  "addFargateProfile cluster n p = mk (inCluster cluster n) FargateProfile [cluster] p"

definition cfnOutput :: "string \<Rightarrow> pval \<Rightarrow> string \<Rightarrow> decl" where
  "cfnOutput n v d = mk n CfnOutput [] [(''value'', v), (''description'', Lit d)]"

text \<open>The head of a Kubernetes manifest.\<close>

definition k8s :: "string \<Rightarrow> string \<Rightarrow> string \<Rightarrow> (string \<times> pval) list" where
  "k8s kind name namespace =
     [(''kind'', Lit kind), (''metadata.name'', Lit name), (''metadata.namespace'', Lit namespace)]"

text \<open>A synthesized stack: its id, its description and its declarations.\<close>

record stack =
  stackId :: string
  description :: string
  decls :: "decl list"

section \<open>Kubernetes manifests (lib/k8s-manifests)\<close>

definition claimNameKey :: string where
  "claimNameKey = ''spec.template.spec.volumes[0].persistentVolumeClaim.claimName''"

definition certificateArnAnnotation :: string where
  "certificateArnAnnotation = ''metadata.annotations.alb.ingress.kubernetes.io/certificate-arn''"

text \<open>\<^verbatim>\<open>AlbIngress\<close>: one Ingress routing the six services.\<close>

definition AlbIngress :: "string \<Rightarrow> string \<Rightarrow> string \<Rightarrow> pval \<Rightarrow> decl list" where
  "AlbIngress cluster namespace domainName certificateArn =
     [addManifest cluster ''RegistryIngress''
        (k8s ''Ingress'' ''registry-ingress'' namespace @
         [(certificateArnAnnotation, certificateArn),
          (''spec.rules[0].host'', Lit domainName),
          (''spec.rules[0].http.paths[0]'', Lit ''/ -> registry:7860''),
          (''spec.rules[0].http.paths[1]'', Lit ''/auth -> auth-server:8888''),
          (''spec.rules[0].http.paths[2]'', Lit ''/mcp -> mcpgw-server:8003''),
          (''spec.rules[0].http.paths[3]'', Lit ''/api/time -> currenttime-server:8000''),
          (''spec.rules[0].http.paths[4]'', Lit ''/api/finance -> fininfo-server:8001''),
          (''spec.rules[0].http.paths[5]'', Lit ''/api/tools -> faketools-server:8002'')])]"

text \<open>\<^verbatim>\<open>EfsPvc\<close>: the storage class and the persistent volume claim \<^verbatim>\<open>efs-pvc\<close>.\<close>

definition EfsPvc :: "string \<Rightarrow> string \<Rightarrow> pval \<Rightarrow> decl list" where
  "EfsPvc cluster namespace efsFileSystemId =
     [addManifest cluster ''EfsStorageClass''
        [(''kind'', Lit ''StorageClass''), (''metadata.name'', Lit ''efs-sc''),
         (''provisioner'', Lit ''efs.csi.aws.com''),
         (''parameters.fileSystemId'', efsFileSystemId),
         (''parameters.basePath'', Lit ''/mcp-gateway'')],
      addManifest cluster ''EfsPvc''
        (k8s ''PersistentVolumeClaim'' ''efs-pvc'' namespace @
         [(''spec.storageClassName'', Lit ''efs-sc''),
          (''spec.resources.requests.storage'', Lit ''100Gi'')])]"

definition service :: "string \<Rightarrow> string \<Rightarrow> string \<Rightarrow> string \<Rightarrow> string \<Rightarrow> decl" where
  "service cluster n name namespace port =
     addManifest cluster n
       (k8s ''Service'' name namespace @
        [(''spec.selector.app'', Lit name), (''spec.ports[0].port'', Lit port),
         (''spec.type'', Lit ''ClusterIP'')])"

definition hpa :: "string \<Rightarrow> string \<Rightarrow> string \<Rightarrow> string \<Rightarrow> string \<Rightarrow> decl" where
  "hpa cluster n name namespace target =
     addManifest cluster n
       (k8s ''HorizontalPodAutoscaler'' name namespace @
        [(''spec.scaleTargetRef.kind'', Lit ''Deployment''),
         (''spec.scaleTargetRef.name'', Lit target)])"

text \<open>\<^verbatim>\<open>AuthServerDeployment\<close>: deployment, service and autoscaler of the auth server.\<close>

definition AuthServerDeployment ::
  "string \<Rightarrow> string \<Rightarrow> string \<Rightarrow> string \<Rightarrow> string \<Rightarrow> string \<Rightarrow> string \<Rightarrow> pval \<Rightarrow> pval \<Rightarrow> pval
   \<Rightarrow> string \<Rightarrow> decl list" where
  "AuthServerDeployment cluster namespace adminUser adminPassword secretKey registryUrl
      authServerExternalUrl cognitoClientId cognitoClientSecret cognitoUserPoolId awsRegion =
     [addManifest cluster ''AuthServerDeployment''
        (k8s ''Deployment'' ''auth-server'' namespace @
         [(''env.HOME'', Lit ''/app''),
          (''env.PYTHONUNBUFFERED'', Lit ''1''),
          (''env.REGISTRY_URL'', Lit registryUrl),
          (''env.SECRET_KEY'', Lit secretKey),
          (''env.ADMIN_USER'', Lit adminUser),
          (''env.ADMIN_PASSWORD'', Lit adminPassword),
          (''env.AUTH_SERVER_EXTERNAL_URL'', Lit authServerExternalUrl),
          (''env.COGNITO_CLIENT_ID'', cognitoClientId),
          (''env.COGNITO_CLIENT_SECRET'', cognitoClientSecret),
          (''env.COGNITO_USER_POOL_ID'', cognitoUserPoolId),
          (''env.AWS_REGION'', Lit awsRegion),
          (''spec.template.spec.volumes[0].name'', Lit ''efs-storage''),
          (claimNameKey, Lit ''efs-claim'')]),
      service cluster ''AuthServerService'' ''auth-server'' namespace ''8888'',
      hpa cluster ''AuthServerHPA'' ''auth-server-hpa'' namespace ''auth-server'']"

text \<open>\<^verbatim>\<open>RegistryDeployment\<close>: deployment, service and autoscaler of the registry.\<close>

definition RegistryDeployment ::
  "string \<Rightarrow> string \<Rightarrow> string \<Rightarrow> string \<Rightarrow> string \<Rightarrow> string \<Rightarrow> string \<Rightarrow> string \<Rightarrow> string
   \<Rightarrow> pval \<Rightarrow> pval \<Rightarrow> pval \<Rightarrow> pval \<Rightarrow> string \<Rightarrow> decl list" where
  "RegistryDeployment cluster namespace adminUser adminPassword secretKey domainName
      authServerUrl authServerExternalUrl registryUrl efsFileSystemId cognitoClientId
      cognitoClientSecret cognitoUserPoolId awsRegion =
     [addManifest cluster ''RegistryDeployment''
        (k8s ''Deployment'' ''registry'' namespace @
         [(''env.HOME'', Lit ''/app''),
          (''env.PYTHONUNBUFFERED'', Lit ''1''),
          (''env.DEBIAN_FRONTEND'', Lit ''noninteractive''),
          (''env.SECRET_KEY'', Lit secretKey),
          (''env.ADMIN_USER'', Lit adminUser),
          (''env.ADMIN_PASSWORD'', Lit adminPassword),
          (''env.AUTH_SERVER_URL'', Lit authServerUrl),
          (''env.AUTH_SERVER_EXTERNAL_URL'', Lit authServerExternalUrl),
          (''env.REGISTRY_URL'', Lit registryUrl),
          (''env.DOMAIN_NAME'', Lit domainName),
          (''env.COGNITO_CLIENT_ID'', cognitoClientId),
          (''env.COGNITO_CLIENT_SECRET'', cognitoClientSecret),
          (''env.COGNITO_USER_POOL_ID'', cognitoUserPoolId),
          (''env.AWS_REGION'', Lit awsRegion),
          (''env.EMBEDDINGS_MODEL_NAME'', Lit ''all-MiniLM-L6-v2''),
          (''env.EMBEDDINGS_MODEL_DIMENSIONS'', Lit ''384''),
          (''spec.template.spec.volumes[0].name'', Lit ''efs-storage''),
          (claimNameKey, Lit ''efs-claim'')]),
      service cluster ''RegistryService'' ''registry'' namespace ''7860'',
      hpa cluster ''RegistryHPA'' ''registry-hpa'' namespace ''registry'']"

text \<open>
  The four tool-server classes have one shape (a deployment with the environment
  \<^verbatim>\<open>PORT\<close>, \<^verbatim>\<open>PYTHONUNBUFFERED\<close>, \<^verbatim>\<open>MCP_SERVER_NAME\<close> and a service), written once
  as \<open>toolServer\<close>. They mount the shared volume only when \<^verbatim>\<open>props.efsFileSystemId\<close>
  is truthy (\<^verbatim>\<open>...(props.efsFileSystemId && { volumes: [...] })\<close>); a token is a
  non-empty string.
\<close>

fun pvalTruthy :: "pval option \<Rightarrow> bool" where
  "pvalTruthy None = False"
| "pvalTruthy (Some (Lit s)) = (s \<noteq> [])"
| "pvalTruthy (Some v) = True"

definition efsVolume :: "pval option \<Rightarrow> (string \<times> pval) list" where
  "efsVolume efsFileSystemId =
     (if pvalTruthy efsFileSystemId
      then [(''spec.template.spec.volumes[0].name'', Lit ''efs-storage''),
            (claimNameKey, Lit ''efs-pvc'')]
      else [])"

definition toolServer ::
  "string \<Rightarrow> string \<Rightarrow> string \<Rightarrow> string \<Rightarrow> string \<Rightarrow> string \<Rightarrow> (string \<times> pval) list
   \<Rightarrow> pval option \<Rightarrow> decl list" where
  "toolServer cluster deploymentId serviceId name namespace port extraEnv efsFileSystemId =
     [addManifest cluster deploymentId
        (k8s ''Deployment'' name namespace @
         [(''env.PORT'', Lit port), (''env.PYTHONUNBUFFERED'', Lit ''1''),
          (''env.MCP_SERVER_NAME'', Lit name)] @ extraEnv @ efsVolume efsFileSystemId),
      service cluster serviceId name namespace port]"

definition CurrentTimeServerDeployment :: "string \<Rightarrow> string \<Rightarrow> pval option \<Rightarrow> decl list" where
  "CurrentTimeServerDeployment cluster namespace efsFileSystemId =
     toolServer cluster ''CurrentTimeServerDeployment'' ''CurrentTimeServerService''
       ''currenttime-server'' namespace ''8000'' [] efsFileSystemId"

definition FinInfoServerDeployment :: "string \<Rightarrow> string \<Rightarrow> pval option \<Rightarrow> decl list" where
  "FinInfoServerDeployment cluster namespace efsFileSystemId =
     toolServer cluster ''FinInfoServerDeployment'' ''FinInfoServerService''
       ''fininfo-server'' namespace ''8001''
       [(''env.POLYGON_API_KEY.secretKeyRef'', Lit ''mcp-gateway-secrets/polygon-api-key'')]
       efsFileSystemId"

definition FakeToolsServerDeployment :: "string \<Rightarrow> string \<Rightarrow> pval option \<Rightarrow> decl list" where
  "FakeToolsServerDeployment cluster namespace efsFileSystemId =
     toolServer cluster ''FakeToolsServerDeployment'' ''FakeToolsServerService''
       ''faketools-server'' namespace ''8002'' [] efsFileSystemId"

definition McpGatewayServerDeployment :: "string \<Rightarrow> string \<Rightarrow> pval option \<Rightarrow> decl list" where
  "McpGatewayServerDeployment cluster namespace efsFileSystemId =
     toolServer cluster ''McpGatewayServerDeployment'' ''McpGatewayServerService''
       ''mcpgw-server'' namespace ''8003''
       [(''env.AUTH_SERVER_URL.configMapKeyRef'', Lit ''mcp-gateway-config/AUTH_SERVER_URL''),
        (''env.REGISTRY_URL.configMapKeyRef'', Lit ''mcp-gateway-config/REGISTRY_URL'')]
       efsFileSystemId"

text \<open>The namespace, secret and configuration manifests both stacks write inline.\<close>

definition namespaceManifest :: "string \<Rightarrow> string \<Rightarrow> string \<Rightarrow> decl" where
  "namespaceManifest cluster n name =
     addManifest cluster n [(''kind'', Lit ''Namespace''), (''metadata.name'', Lit name)]"

definition secretManifest :: "string \<Rightarrow> string \<Rightarrow> string \<Rightarrow> decl" where
  "secretManifest cluster namespace adminPassword =
     addManifest cluster ''McpGatewaySecret''
       (k8s ''Secret'' ''mcp-gateway-secrets'' namespace @
        [(''type'', Lit ''Opaque''),
         (''stringData.admin-password'', Lit adminPassword),
         (''stringData.polygon-api-key'', Lit []),
         (''stringData.github-client-id'', Lit []),
         (''stringData.github-client-secret'', Lit [])])"

definition configMapManifest ::
  "string \<Rightarrow> string \<Rightarrow> string \<Rightarrow> nat \<Rightarrow> string \<Rightarrow> string \<Rightarrow> pval \<Rightarrow> pval \<Rightarrow> decl" where
  "configMapManifest cluster namespace adminUser now awsRegion domainName efsFileSystemId clusterName =
     addManifest cluster ''McpGatewayConfigMap''
       (k8s ''ConfigMap'' ''mcp-gateway-config'' namespace @
        [(''data.ADMIN_USER'', Lit adminUser),
         (''data.SECRET_KEY'', Lit (''auto-generated-secret-key-cdk-'' @ showNat now)),
         (''data.AWS_REGION'', Lit awsRegion),
         (''data.AUTH_SERVER_URL'', Lit ''http://auth-server:8888''),
         (''data.REGISTRY_URL'', Lit ''http://registry:7860''),
         (''data.MCPGW_SERVER_URL'', Lit ''http://mcpgw-server:8003''),
         (''data.CURRENTTIME_SERVER_URL'', Lit ''http://currenttime-server:8000''),
         (''data.FININFO_SERVER_URL'', Lit ''http://fininfo-server:8001''),
         (''data.FAKETOOLS_SERVER_URL'', Lit ''http://faketools-server:8002''),
         (''data.DOMAIN_NAME'', Lit domainName),
         (''data.EFS_FILE_SYSTEM_ID'', efsFileSystemId),
         (''data.CLUSTER_NAME'', clusterName)])"

section \<open>Stack properties\<close>

text \<open>
  The union of \<^verbatim>\<open>McpgwMicroservicesCdkStackProps\<close> and
  \<^verbatim>\<open>McpgwCompleteInfrastructureStackProps\<close>; each stack reads the fields of its own
  interface. An optional field is an option; \<^verbatim>\<open>createCertificate\<close> is only ever tested
  for truth, so \<^verbatim>\<open>undefined\<close> is \<open>False\<close>. \<open>region\<close> and \<open>account\<close> are
  \<^verbatim>\<open>props.env\<close>.
\<close>

datatype KubernetesVersion = V1_27 | V1_28

record stackProps =
  domainName :: string
  adminPassword :: string
  adminUser :: jsstr
  hostedZoneId :: jsstr
  certificateArn :: jsstr
  createCertificate :: bool
  vpcCidr :: jsstr
  maxAzs :: "jsnum option"
  clusterName :: jsstr
  kubernetesVersion :: "KubernetesVersion option"
  efsPerformanceMode :: jsstr
  efsThroughputMode :: jsstr
  cognitoUserPoolName :: jsstr
  cognitoCallbackUrls :: "string list option"
  cognitoLogoutUrls :: "string list option"
  deployApplications :: "bool option"
  efsFileSystemId :: string
  cognitoClientId :: jsstr
  cognitoClientSecret :: jsstr
  cognitoUserPoolId :: jsstr
  account :: jsstr
  region :: string
  stackDescription :: string

definition thisAccount :: "stackProps \<Rightarrow> string" where
  "thisAccount props = (case account props of None \<Rightarrow> ''${AWS::AccountId}'' | Some a \<Rightarrow> a)"

section \<open>The application-only stack (lib/mcpgw-microservices-cdk-stack.ts)\<close>

text \<open>
  \<^verbatim>\<open>setupCertificate\<close> returns the certificate's ARN with the declarations it made:
  an imported certificate hands back the ARN it was given, a new one a token.
\<close>

definition setupCertificate :: "stackProps \<Rightarrow> error + (pval \<times> decl list)" where
  "setupCertificate props =
     (if truthy (certificateArn props) then
        Inr (Lit (jsString (certificateArn props)),
             [mk ''ExistingCertificate'' ImportedCertificate []
                [(''certificateArn'', Lit (jsString (certificateArn props)))]])
      else if createCertificate props then
        Inr (Tok ''McpGatewayCertificate'' ''certificateArn'',
             (if truthy (hostedZoneId props)
              then [mk ''HostedZone'' ImportedHostedZone []
                      [(''hostedZoneId'', Lit (jsString (hostedZoneId props)))],
                    mk ''McpGatewayCertificate'' Certificate [''HostedZone'']
                      [(''domainName'', Lit (domainName props)), (''validation'', Lit ''fromDns'')]]
              else [mk ''McpGatewayCertificate'' Certificate []
                      [(''domainName'', Lit (domainName props)), (''validation'', Lit ''fromDns'')]]) @
             [cfnOutput ''NewCertificateArn'' (Tok ''McpGatewayCertificate'' ''certificateArn'')
                ''ARN of the created SSL certificate''])
      else Inl (Error ''Either certificateArn or createCertificate must be provided''))"

text \<open>
  The Cognito ids are \<^verbatim>\<open>props.cognitoClientId || process.env.COGNITO_CLIENT_ID || ''\<close>
  (and the same for the client secret and the user pool id): the stack reads the
  environment itself.
\<close>

definition deployMicroservicesArchitecture ::
  "stackProps \<Rightarrow> pval \<Rightarrow> (string \<Rightarrow> jsstr) \<Rightarrow> host \<Rightarrow> decl list" where
  "deployMicroservicesArchitecture props certArn penv h =
     (let clusterName = orDefault (clusterName props) ''mcp-gateway-registry'';
          namespace = ''mcp-registry'';
          adminUser = orDefault (adminUser props) ''admin'';
          cluster = ''ExistingCluster'';
          secretKey = random1 h @ random2 h;
          clientId = Lit (orDefault (jsOr (cognitoClientId props) (penv ''COGNITO_CLIENT_ID'')) []);
          clientSecret =
            Lit (orDefault (jsOr (cognitoClientSecret props) (penv ''COGNITO_CLIENT_SECRET'')) []);
          userPoolId =
            Lit (orDefault (jsOr (cognitoUserPoolId props) (penv ''COGNITO_USER_POOL_ID'')) []);
          efs = Lit (efsFileSystemId props)
      in [mk cluster ImportedCluster []
            [(''clusterName'', Lit clusterName),
             (''kubectlRoleArn'',
              Lit (''arn:aws:iam::'' @ thisAccount props @ '':role/'' @ clusterName @ ''-kubectl-role''))],
          namespaceManifest cluster ''McpRegistryNamespace'' namespace] @
         EfsPvc cluster namespace efs @
         [configMapManifest cluster namespace adminUser (dateNow h) (region props)
            (domainName props) efs (Lit clusterName),
          secretManifest cluster namespace (adminPassword props)] @
         AuthServerDeployment cluster namespace adminUser (adminPassword props) secretKey
           ''http://registry:7860'' (''https://'' @ domainName props) clientId clientSecret
           userPoolId (region props) @
         RegistryDeployment cluster namespace adminUser (adminPassword props) secretKey
           (domainName props) ''http://auth-server:8888'' (''https://'' @ domainName props)
           ''http://registry:7860'' efs clientId clientSecret userPoolId (region props) @
         CurrentTimeServerDeployment cluster namespace (Some efs) @
         FinInfoServerDeployment cluster namespace (Some efs) @
         FakeToolsServerDeployment cluster namespace (Some efs) @
         McpGatewayServerDeployment cluster namespace (Some efs) @
         AlbIngress cluster namespace (domainName props) certArn)"

definition createOutputsMs :: "stackProps \<Rightarrow> pval \<Rightarrow> decl list" where
  "createOutputsMs props certArn =
     [cfnOutput ''ClusterName'' (Lit (orDefault (clusterName props) ''mcp-gateway-registry''))
        ''EKS Cluster Name'',
      cfnOutput ''DomainName'' (Lit (domainName props)) ''Domain Name'',
      cfnOutput ''DomainUrl'' (Lit (''https://'' @ domainName props))
        ''URL to access the MCP Gateway Registry'',
      cfnOutput ''EfsFileSystemId'' (Lit (efsFileSystemId props)) ''EFS File System ID'',
      cfnOutput ''CertificateArn'' certArn ''SSL Certificate ARN'',
      cfnOutput ''Namespace'' (Lit ''mcp-registry'')
        ''Kubernetes namespace for MCP Gateway services'',
      cfnOutput ''Services'' (Lit ''JSON.stringify(service urls)'') ''Internal service URLs'',
      cfnOutput ''DeploymentInstructions''
        (Lit (''verification steps 1-5; 6. Access application: https://'' @ domainName props))
        ''Post-deployment verification steps'']"

text \<open>The constructor: certificate first, then the microservices, then the outputs.\<close>

definition McpgwMicroservicesCdkStack ::
  "string \<Rightarrow> stackProps \<Rightarrow> (string \<Rightarrow> jsstr) \<Rightarrow> host \<Rightarrow> error + stack" where
  "McpgwMicroservicesCdkStack id' props penv h =
     (case setupCertificate props of
        Inl e \<Rightarrow> Inl e
      | Inr (certArn, cs) \<Rightarrow>
          Inr \<lparr>stackId = id', description = stackDescription props,
               decls = cs @ deployMicroservicesArchitecture props certArn penv h @
                       createOutputsMs props certArn\<rparr>)"

section \<open>The complete infrastructure stack (lib/mcpgw-complete-infrastructure-stack.ts)\<close>

definition generateUniqueServiceAccountName :: "string \<Rightarrow> string \<Rightarrow> string" where
  "generateUniqueServiceAccountName stackName baseName = baseName @ ''-'' @ toLowerCase stackName"

definition createVpc :: "stackProps \<Rightarrow> decl list" where
  "createVpc props =
     [mk ''McpVpc'' Vpc []
        [(''ipAddresses.cidr'', Lit (orDefault (vpcCidr props) ''10.0.0.0/16'')),
         (''maxAzs'', Lit (showInt (numOrDefault (maxAzs props) 3))),
         (''natGateways'', Lit ''1'')],
      mk ''McpVpcFlowLog'' FlowLog [''McpVpc''] [(''destination'', Lit ''CloudWatchLogs'')]]"

definition createEfsFileSystem :: "stackProps \<Rightarrow> decl list" where
  "createEfsFileSystem props =
     [mk ''McpEfs'' FileSystem [''McpVpc'']
        [(''performanceMode'', Lit (orDefault (efsPerformanceMode props) ''GENERAL_PURPOSE'')),
         (''throughputMode'', Lit (orDefault (efsThroughputMode props) ''BURSTING'')),
         (''encrypted'', Lit ''true'')],
      mk ''McpEfsAccessPoint'' AccessPoint [''McpEfs''] [(''path'', Lit ''/mcp-gateway'')]]"

text \<open>
  \<^verbatim>\<open>createEksCluster\<close>: the kubectl layer is built inside the cluster's properties, so it
  comes first; \<^verbatim>\<open>addCoreFargateProfiles\<close> has an empty body; the last statement opens the
  file system's port to the cluster.
\<close>

definition createEksCluster :: "stackProps \<Rightarrow> decl list" where
  "createEksCluster props =
     [mk ''KubectlLayer'' KubectlLayer [] [],
      mk ''McpCluster'' FargateCluster [''McpVpc'', ''KubectlLayer'']
        [(''version'',
          Lit (case kubernetesVersion props of Some V1_27 \<Rightarrow> ''1.27'' | _ \<Rightarrow> ''1.28'')),
         (''clusterName'', Lit (orDefault (clusterName props) ''mcp-gateway-registry'')),
         (''defaultProfile.fargateProfileName'', Lit ''default-fargate-profile'')],
      mk ''McpEfs.connections.allowDefaultPortFrom'' SecurityGroupRule [''McpEfs'', ''McpCluster''] []]"

text \<open>
  \<^verbatim>\<open>createCertificate\<close> never reads \<^verbatim>\<open>props.createCertificate\<close>: an ARN imports the
  certificate, no ARN creates one.
\<close>

definition createCertificate' :: "stackProps \<Rightarrow> pval \<times> decl list" where
  "createCertificate' props =
     (let newCertificate = (\<lambda>objs. mk ''McpGatewayCertificate'' Certificate objs
            [(''domainName'', Lit (domainName props)),
             (''subjectAlternativeNames[0]'', Lit (''*.'' @ domainName props)),
             (''validation'', Lit ''fromDns''),
             (''certificateName'', Lit (''mcp-gateway-'' @ domainName props))])
      in if truthy (certificateArn props) then
           (Lit (jsString (certificateArn props)),
            [mk ''ExistingCertificate'' ImportedCertificate []
               [(''certificateArn'', Lit (jsString (certificateArn props)))]])
         else if truthy (hostedZoneId props) then
           (Tok ''McpGatewayCertificate'' ''certificateArn'',
            [mk ''HostedZone'' ImportedHostedZone []
               [(''hostedZoneId'', Lit (jsString (hostedZoneId props)))],
             newCertificate [''HostedZone'']])
         else
           (Tok ''McpGatewayCertificate'' ''certificateArn'',
            [newCertificate [],
             cfnOutput ''CertificateDnsValidationRecords''
               (Lit (''Check AWS Console ACM for DNS validation records for '' @ domainName props))
               ''DNS validation records for SSL certificate'']))"

definition indexed :: "string \<Rightarrow> string list \<Rightarrow> (string \<times> pval) list" where
  "indexed key xs = map (\<lambda>(i, x). (key @ ''['' @ showNat i @ '']'', Lit x)) (enumerate 0 xs)"

definition createCognitoUserPool :: "stackProps \<Rightarrow> decl list" where
  "createCognitoUserPool props =
     (let userPoolId = Tok ''McpUserPool'' ''userPoolId'' in
      [mk ''McpUserPool'' UserPool []
         [(''userPoolName'',
           Lit (orDefault (cognitoUserPoolName props)
                  (''mcp-gateway-users-'' @ jsString (clusterName props))))],
       mk ''McpUserPoolClient'' UserPoolClient [''McpUserPool'']
         ([(''userPoolClientName'', Lit ''mcp-gateway-client'')] @
          indexed ''oAuth.callbackUrls''
            (case cognitoCallbackUrls props of
               Some urls \<Rightarrow> urls
             | None \<Rightarrow> [''http://localhost:9090/callback'',
                        ''http://localhost/oauth2/callback/cognito'',
                        ''http://localhost:8888/oauth2/callback/cognito'',
                        ''https://'' @ domainName props @ ''/oauth2/callback/cognito'']) @
          indexed ''oAuth.logoutUrls''
            (case cognitoLogoutUrls props of
               Some urls \<Rightarrow> urls
             | None \<Rightarrow> [''https://'' @ domainName props @ ''/auth/logout'',
                        ''https://'' @ domainName props @ ''/logout''])),
       mk ''McpAdminGroup'' CfnUserPoolGroup []
         [(''userPoolId'', userPoolId), (''groupName'', Lit ''mcp-registry-admin'')],
       mk ''McpUserGroup'' CfnUserPoolGroup []
         [(''userPoolId'', userPoolId), (''groupName'', Lit ''mcp-registry-user'')],
       mk ''McpResourceServer'' UserPoolResourceServer [''McpUserPool'']
         [(''identifier'', Lit ''mcp-servers-unrestricted''),
          (''scopes[0]'', Lit ''read''), (''scopes[1]'', Lit ''execute'')],
       mk ''McpM2MClient'' UserPoolClient [''McpUserPool'', ''McpResourceServer'']
         [(''userPoolClientName'', Lit ''mcp-agent-client'')],
       mk ''McpUserPoolDomain'' UserPoolDomain [''McpUserPool'']
         [(''cognitoDomain.domainPrefix'', Lit (''mcp-gateway-'' @ jsString (clusterName props)))],
       mk ''McpAdminUser'' CfnUserPoolUser []
         [(''userPoolId'', userPoolId), (''username'', Lit ''admin''),
          (''userAttributes.email'', Lit (''admin@'' @ domainName props))],
       mk ''AdminUserGroupAttachment'' CfnUserPoolUserToGroupAttachment []
         [(''userPoolId'', userPoolId),
          (''username'', Tok ''McpAdminUser'' ''username''),
          (''groupName'', Tok ''McpAdminGroup'' ''groupName'')]])"

definition clusterNameTok :: pval where
  "clusterNameTok = Tok ''McpCluster'' ''clusterName''"

definition installManagedAddons :: "decl list" where
  "installManagedAddons =
     [mk ''CoreDnsAddon'' CfnAddon []
        [(''clusterName'', clusterNameTok), (''addonName'', Lit ''coredns''),
         (''addonVersion'', Lit ''v1.10.1-eksbuild.4'')],
      mk ''PodIdentityAddon'' CfnAddon []
        [(''clusterName'', clusterNameTok), (''addonName'', Lit ''eks-pod-identity-agent'')]]"

definition installMetricsServer :: "decl list" where
  "installMetricsServer =
     [addHelmChart ''McpCluster'' ''MetricsServer''
        [(''chart'', Lit ''metrics-server''), (''namespace'', Lit ''kube-system''),
         (''version'', Lit ''3.12.1'')]]"

definition installExternalDns :: "string \<Rightarrow> decl list" where
  "installExternalDns stackName =
     (let uniqueServiceAccountName = generateUniqueServiceAccountName stackName ''external-dns'' in
      [addServiceAccount ''McpCluster'' ''ExternalDns''
         [(''name'', Lit uniqueServiceAccountName), (''namespace'', Lit ''kube-system'')],
       addHelmChart ''McpCluster'' ''ExternalDns''
         [(''chart'', Lit ''external-dns''), (''namespace'', Lit ''kube-system''),
          (''version'', Lit ''1.14.3''),
          (''values.serviceAccount.name'', Lit uniqueServiceAccountName)]])"

definition installCoreEksAddons :: "string \<Rightarrow> decl list" where
  "installCoreEksAddons stackName =
     installManagedAddons @ installMetricsServer @ installExternalDns stackName"

definition installAwsLoadBalancerController :: "string \<Rightarrow> decl list" where
  "installAwsLoadBalancerController stackName =
     (let uniqueServiceAccountName =
            generateUniqueServiceAccountName stackName ''aws-load-balancer-controller'' in
      [addServiceAccount ''McpCluster'' ''AWSLoadBalancerController''
         [(''name'', Lit uniqueServiceAccountName), (''namespace'', Lit ''kube-system'')],
       addHelmChart ''McpCluster'' ''AWSLoadBalancerController''
         [(''chart'', Lit ''aws-load-balancer-controller''), (''namespace'', Lit ''kube-system''),
          (''values.clusterName'', clusterNameTok),
          (''values.serviceAccount.name'', Lit uniqueServiceAccountName)]])"

definition efsFileSystemIdTok :: pval where
  "efsFileSystemIdTok = Tok ''McpEfs'' ''fileSystemId''"

definition installEfsCsiDriver :: "string \<Rightarrow> decl list" where
  "installEfsCsiDriver stackName =
     (let saName = Tok ''McpCluster/EfsCsiController'' ''serviceAccountName'' in
      [addServiceAccount ''McpCluster'' ''EfsCsiController''
         [(''name'', Lit (generateUniqueServiceAccountName stackName ''efs-csi-controller-sa'')),
          (''namespace'', Lit ''kube-system'')],
       addHelmChart ''McpCluster'' ''AwsEfsCsiDriver''
         [(''chart'', Lit ''aws-efs-csi-driver''), (''namespace'', Lit ''kube-system''),
          (''values.controller.serviceAccount.name'', saName),
          (''values.node.serviceAccount.name'', saName)],
       addManifest ''McpCluster'' ''EfsStorageClass''
         [(''kind'', Lit ''StorageClass''), (''metadata.name'', Lit ''efs-sc''),
          (''provisioner'', Lit ''efs.csi.aws.com''),
          (''parameters.fileSystemId'', efsFileSystemIdTok)],
       addManifest ''McpCluster'' ''EfsPersistentVolume''
         [(''kind'', Lit ''PersistentVolume''), (''metadata.name'', Lit ''efs-pv''),
          (''spec.storageClassName'', Lit ''efs-sc''),
          (''spec.csi.volumeHandle'', efsFileSystemIdTok)]])"

definition createRequiredNamespaces :: "decl list" where
  "createRequiredNamespaces =
     [namespaceManifest ''McpCluster'' ''CloudWatchNamespace'' ''amazon-cloudwatch'',
      namespaceManifest ''McpCluster'' ''ApplicationNamespace'' ''kubeflow-user-example-com'']"

definition addApplicationFargateProfiles :: "decl list" where
  "addApplicationFargateProfiles =
     [addFargateProfile ''McpCluster'' ''MonitoringProfile''
        [(''selectors[0].namespace'', Lit ''amazon-cloudwatch''),
         (''fargateProfileName'', Lit ''monitoring-profile'')],
      addFargateProfile ''McpCluster'' ''ApplicationProfile''
        [(''selectors[0].namespace'', Lit ''kubeflow-user-example-com''),
         (''fargateProfileName'', Lit ''application-profile'')]]"

definition enableContainerInsights :: "string \<Rightarrow> string \<Rightarrow> decl list" where
  "enableContainerInsights stackName awsRegion =
     [addServiceAccount ''McpCluster'' ''CloudWatchAgent''
        [(''name'', Lit (generateUniqueServiceAccountName stackName ''cloudwatch-agent'')),
         (''namespace'', Lit ''amazon-cloudwatch'')],
      addServiceAccount ''McpCluster'' ''FluentBit''
        [(''name'', Lit (generateUniqueServiceAccountName stackName ''fluent-bit'')),
         (''namespace'', Lit ''amazon-cloudwatch'')],
      addManifest ''McpCluster'' ''FluentBitDeployment''
        (k8s ''Deployment'' ''fluent-bit'' ''amazon-cloudwatch'' @
         [(''spec.template.spec.serviceAccountName'',
           Lit (generateUniqueServiceAccountName stackName ''fluent-bit'')),
          (''env.AWS_REGION'', Lit awsRegion),
          (''env.CLUSTER_NAME'', clusterNameTok)])]"

definition deployMcpGatewayMicroservices :: "stackProps \<Rightarrow> pval \<Rightarrow> host \<Rightarrow> decl list" where
  "deployMcpGatewayMicroservices props certArn h =
     (let namespace = ''mcp-registry'';
          cluster = ''McpCluster'';
          adminUser = orDefault (adminUser props) ''admin'';
          secretKey = random1 h @ random2 h;
          clientId = Tok ''McpUserPoolClient'' ''userPoolClientId'';
          clientSecret = Tok ''McpUserPoolClient'' ''userPoolClientSecret'';
          userPoolId = Tok ''McpUserPool'' ''userPoolId''
      in [namespaceManifest cluster ''McpRegistryNamespace'' namespace,
          mk ''McpClusterFargateProfile'' Role []
            [(''assumedBy'', Lit ''eks-fargate-pods.amazonaws.com'')],
          mk ''McpRegistryFargateProfile'' FargateProfile [cluster, ''McpClusterFargateProfile'']
            [(''selectors[0].namespace'', Lit namespace)]] @
         EfsPvc cluster namespace efsFileSystemIdTok @
         [configMapManifest cluster namespace adminUser (dateNow h) (region props)
            (domainName props) efsFileSystemIdTok clusterNameTok,
          secretManifest cluster namespace (adminPassword props)] @
         AuthServerDeployment cluster namespace adminUser (adminPassword props) secretKey
           ''http://registry:7860'' (''https://'' @ domainName props) clientId clientSecret
           userPoolId (region props) @
         RegistryDeployment cluster namespace adminUser (adminPassword props) secretKey
           (domainName props) ''http://auth-server:8888'' (''https://'' @ domainName props)
           ''http://registry:7860'' efsFileSystemIdTok clientId clientSecret userPoolId
           (region props) @
         CurrentTimeServerDeployment cluster namespace (Some efsFileSystemIdTok) @
         FinInfoServerDeployment cluster namespace (Some efsFileSystemIdTok) @
         FakeToolsServerDeployment cluster namespace (Some efsFileSystemIdTok) @
         McpGatewayServerDeployment cluster namespace (Some efsFileSystemIdTok) @
         AlbIngress cluster namespace (domainName props) certArn)"

definition createOutputs :: "stackProps \<Rightarrow> pval \<Rightarrow> decl list" where
  "createOutputs props certArn =
     [cfnOutput ''VpcId'' (Tok ''McpVpc'' ''vpcId'') ''VPC ID'',
      cfnOutput ''ClusterName'' clusterNameTok ''EKS Cluster Name'',
      cfnOutput ''ClusterEndpoint'' (Tok ''McpCluster'' ''clusterEndpoint'') ''EKS Cluster Endpoint'',
      cfnOutput ''EfsFileSystemId'' efsFileSystemIdTok ''EFS File System ID'',
      cfnOutput ''CertificateArn'' certArn ''SSL Certificate ARN'',
      cfnOutput ''UserPoolId'' (Tok ''McpUserPool'' ''userPoolId'') ''Cognito User Pool ID'',
      cfnOutput ''UserPoolClientId'' (Tok ''McpUserPoolClient'' ''userPoolClientId'')
        ''Cognito User Pool Client ID (for user authentication)'',
      cfnOutput ''M2MClientId'' (Tok ''McpM2MClient'' ''userPoolClientId'')
        ''Cognito M2M Client ID (for agent authentication)'',
      cfnOutput ''CognitoDomain''
        (Cat (Lit ''https://'')
           (Cat (Tok ''McpUserPoolDomain'' ''domainName'')
              (Lit (''.auth.'' @ region props @ ''.amazoncognito.com''))))
        ''Cognito Hosted UI Domain'',
      cfnOutput ''ResourceServerIdentifier'' (Tok ''McpResourceServer'' ''userPoolResourceServerId'')
        ''Cognito Resource Server Identifier'',
      cfnOutput ''DomainName'' (Lit (domainName props)) ''Domain Name'']"

text \<open>
  The constructor. The infrastructure is declared in every mode; the namespaces, the
  application Fargate profiles, the monitoring and the microservices only when
  \<^verbatim>\<open>props.deployApplications !== false\<close>; the outputs come last.
\<close>

definition infrastructure :: "string \<Rightarrow> stackProps \<Rightarrow> pval \<times> decl list" where
  "infrastructure stackName props =
     (let (certArn, certificate) = createCertificate' props in
      (certArn,
       createVpc props @ createEfsFileSystem props @ createEksCluster props @ certificate @
       createCognitoUserPool props @ installCoreEksAddons stackName @
       installAwsLoadBalancerController stackName @ installEfsCsiDriver stackName))"

definition applications :: "string \<Rightarrow> stackProps \<Rightarrow> pval \<Rightarrow> host \<Rightarrow> decl list" where
  "applications stackName props certArn h =
     createRequiredNamespaces @ addApplicationFargateProfiles @
     enableContainerInsights stackName (region props) @
     deployMcpGatewayMicroservices props certArn h"

definition McpgwCompleteInfrastructureStack :: "string \<Rightarrow> stackProps \<Rightarrow> host \<Rightarrow> stack" where
  "McpgwCompleteInfrastructureStack id' props h =
     (let (certArn, infra) = infrastructure id' props in
      \<lparr>stackId = id',
       description =
         (if deployApplications props \<noteq> Some False
          then ''Complete MCP Gateway Registry Infrastructure (VPC + EKS + EFS + Certificate + Cognito + Application)''
          else ''MCP Gateway Registry Infrastructure Only (VPC + EKS + EFS + Certificate + Cognito)''),
       decls = infra @
               (if deployApplications props \<noteq> Some False
                then applications id' props certArn h else []) @
               createOutputs props certArn\<rparr>)"

section \<open>The entry script (bin)\<close>

text \<open>
  The constants the script resolves from the context and the environment. The first
  eight are read before the mode is looked at; \<^verbatim>\<open>vpcCidr\<close>, \<^verbatim>\<open>maxAzs\<close> and
  \<^verbatim>\<open>kubernetesVersion\<close> are read, by the same expressions, inside the
  \<^verbatim>\<open>complete\<close> and the \<^verbatim>\<open>infrastructure-only\<close> branch. \<open>cfgCreateCertificate\<close> is the
  truth value of \<^verbatim>\<open>tryGetContext('createCertificate') || process.env.CREATE_CERTIFICATE === 'true'\<close>.
\<close>

record appConfig =
  cfgDeploymentMode :: string
  cfgClusterName :: string
  cfgDomainName :: jsstr
  cfgEfsFileSystemId :: jsstr
  cfgCertificateArn :: jsstr
  cfgAdminPassword :: jsstr
  cfgHostedZoneId :: jsstr
  cfgCreateCertificate :: bool
  cfgVpcCidr :: string
  cfgMaxAzs :: jsnum
  cfgKubernetesVersion :: string

definition resolve :: "rawInputs \<Rightarrow> appConfig" where
  "resolve raw =
     (let ctx = context raw; penv = env raw in
      \<lparr>cfgDeploymentMode =
         orDefault (jsOr (ctx ''deploymentMode'') (penv ''DEPLOYMENT_MODE'')) ''complete'',
       cfgClusterName =
         orDefault (jsOr (ctx ''clusterName'') (penv ''CLUSTER_NAME'')) ''mcp-gateway-registry'',
       cfgDomainName = jsOr (ctx ''domainName'') (penv ''DOMAIN_NAME''),
       cfgEfsFileSystemId = jsOr (ctx ''efsFileSystemId'') (penv ''EFS_FILE_SYSTEM_ID''),
       cfgCertificateArn = jsOr (ctx ''certificateArn'') (penv ''CERTIFICATE_ARN''),
       cfgAdminPassword = jsOr (ctx ''adminPassword'') (penv ''ADMIN_PASSWORD''),
       cfgHostedZoneId = jsOr (ctx ''hostedZoneId'') (penv ''HOSTED_ZONE_ID''),
       cfgCreateCertificate =
         (truthy (ctx ''createCertificate'') \<or> penv ''CREATE_CERTIFICATE'' = Some ''true''),
       cfgVpcCidr = orDefault (jsOr (ctx ''vpcCidr'') (penv ''VPC_CIDR'')) ''10.0.0.0/16'',
       cfgMaxAzs = parseInt (orDefault (jsOr (ctx ''maxAzs'') (penv ''MAX_AZS'')) ''3''),
       cfgKubernetesVersion =
         orDefault (jsOr (ctx ''kubernetesVersion'') (penv ''KUBERNETES_VERSION'')) ''1.28''\<rparr>)"

text \<open>
  The properties the script hands to \<^verbatim>\<open>McpgwCompleteInfrastructureStack\<close>; the two
  branches differ in \<^verbatim>\<open>deployApplications\<close> and in the description.
\<close>

definition infrastructureProps ::
  "appConfig \<Rightarrow> (string \<Rightarrow> jsstr) \<Rightarrow> bool option \<Rightarrow> string \<Rightarrow> stackProps" where
  "infrastructureProps c penv deployApps descr =
     \<lparr>domainName = jsString (cfgDomainName c),
      adminPassword = jsString (cfgAdminPassword c),
      adminUser = None,
      hostedZoneId = cfgHostedZoneId c,
      certificateArn = cfgCertificateArn c,
      createCertificate = (cfgCreateCertificate c \<or> \<not> truthy (cfgCertificateArn c)),
      vpcCidr = Some (cfgVpcCidr c),
      maxAzs = Some (cfgMaxAzs c),
      clusterName = Some (cfgClusterName c),
      kubernetesVersion =
        Some (if cfgKubernetesVersion c = ''1.28'' then V1_28
              else if cfgKubernetesVersion c = ''1.27'' then V1_27 else V1_28),
      efsPerformanceMode = Some ''GENERAL_PURPOSE'',
      efsThroughputMode = Some ''BURSTING'',
      cognitoUserPoolName = Some (''mcp-gateway-users-'' @ cfgClusterName c),
      cognitoCallbackUrls =
        Some [''http://localhost:9090/callback'',
              ''http://localhost/oauth2/callback/cognito'',
              ''http://localhost:8888/oauth2/callback/cognito'',
              ''https://'' @ jsString (cfgDomainName c) @ ''/oauth2/callback/cognito''],
      cognitoLogoutUrls =
        Some [''https://'' @ jsString (cfgDomainName c) @ ''/auth/logout'',
              ''https://'' @ jsString (cfgDomainName c) @ ''/logout''],
      deployApplications = deployApps,
      efsFileSystemId = [],
      cognitoClientId = None,
      cognitoClientSecret = None,
      cognitoUserPoolId = None,
      account = penv ''CDK_DEFAULT_ACCOUNT'',
      region = orDefault (penv ''CDK_DEFAULT_REGION'') ''us-east-1'',
      stackDescription = descr\<rparr>"

definition microservicesProps :: "appConfig \<Rightarrow> (string \<Rightarrow> jsstr) \<Rightarrow> stackProps" where
  "microservicesProps c penv =
     \<lparr>domainName = jsString (cfgDomainName c),
      adminPassword = jsString (cfgAdminPassword c),
      adminUser = None,
      hostedZoneId = cfgHostedZoneId c,
      certificateArn = cfgCertificateArn c,
      createCertificate = (cfgCreateCertificate c \<or> \<not> truthy (cfgCertificateArn c)),
      vpcCidr = None,
      maxAzs = None,
      clusterName = Some (cfgClusterName c),
      kubernetesVersion = None,
      efsPerformanceMode = None,
      efsThroughputMode = None,
      cognitoUserPoolName = None,
      cognitoCallbackUrls = None,
      cognitoLogoutUrls = None,
      deployApplications = None,
      efsFileSystemId = jsString (cfgEfsFileSystemId c),
      cognitoClientId = None,
      cognitoClientSecret = None,
      cognitoUserPoolId = None,
      account = penv ''CDK_DEFAULT_ACCOUNT'',
      region = orDefault (penv ''CDK_DEFAULT_REGION'') ''us-east-1'',
      stackDescription =
        ''MCP Gateway Registry Microservices (Application Only - requires existing infrastructure)''\<rparr>"

text \<open>
  The script: the two required-parameter checks, then the branch on the mode. Every
  \<^verbatim>\<open>throw\<close> is an \<open>Inl\<close> carrying the message; a run that constructs a stack is
  an \<open>Inr\<close>.
\<close>

definition cdkApp :: "rawInputs \<Rightarrow> host \<Rightarrow> error + stack" where
  "cdkApp raw h =
     (let c = resolve raw; penv = env raw in
      if \<not> truthy (cfgDomainName c) then
        Inl (Error ''domainName is required. Set via context or DOMAIN_NAME environment variable.'')
      else if \<not> truthy (cfgAdminPassword c) then
        Inl (Error ''adminPassword is required. Set via context or ADMIN_PASSWORD environment variable.'')
      else if cfgDeploymentMode c = ''complete'' then
        Inr (McpgwCompleteInfrastructureStack ''McpgwCompleteInfrastructureStack''
               (infrastructureProps c penv None
                  ''Complete MCP Gateway Registry Infrastructure (VPC + EKS + EFS + Certificate + Cognito + Application)'')
               h)
      else if cfgDeploymentMode c = ''infrastructure-only'' then
        Inr (McpgwCompleteInfrastructureStack ''McpgwInfrastructureStackFresh''
               (infrastructureProps c penv (Some False)
                  ''MCP Gateway Registry Infrastructure Only (VPC + EKS + EFS + Certificate + Cognito)'')
               h)
      else if cfgDeploymentMode c = ''application-only'' then
        (if \<not> truthy (cfgEfsFileSystemId c) then
           Inl (Error ''efsFileSystemId is required for application-only mode. Set via context or EFS_FILE_SYSTEM_ID environment variable.'')
         else McpgwMicroservicesCdkStack ''McpgwMicroservicesCdkStack'' (microservicesProps c penv) penv h)
      else
        Inl (Error (''Invalid deployment mode: '' @ cfgDeploymentMode c @
                    ''. Use 'complete', 'infrastructure-only', or 'application-only'.'')))"

section \<open>Observations on a run\<close>

text \<open>
  The predicates the properties below are stated with. A run fails when it is an
  \<open>Inl\<close>; then no stack, and so no declaration, exists.
\<close>

definition resources :: "stack \<Rightarrow> decl list" where
  "resources g = filter (\<lambda>d. rtype d \<noteq> CfnOutput) (decls g)"



text \<open>The name, the class and the dependencies of a declaration: what is left without the payload.\<close>

definition skeleton :: "decl \<Rightarrow> string \<times> construct \<times> string list" where
  "skeleton d = (logicalName d, rtype d, dependsOn d)"





text \<open>
  The claim names workloads mount, and the names of the persistent volume claims a stack
  declares.
\<close>

definition claimsOf :: "decl \<Rightarrow> pval list" where
  "claimsOf d = map snd (filter (\<lambda>(k, v). k = claimNameKey) (payload d))"







text \<open>
  The merge rule in the specification's words: the context value when it is non-empty,
  otherwise the environment value when it is non-empty, otherwise the declared default;
  a parameter with no default stays empty.
\<close>

definition nonEmpty :: "jsstr \<Rightarrow> bool" where
  "nonEmpty v = (case v of Some (c # s) \<Rightarrow> True | _ \<Rightarrow> False)"


text \<open>A parameter is supplied when the context or the environment holds a non-empty value for it.\<close>

definition supplied :: "rawInputs \<Rightarrow> string \<Rightarrow> string \<Rightarrow> bool" where
  "supplied raw contextKey envKey = (nonEmpty (context raw contextKey) \<or> nonEmpty (env raw envKey))"

definition modeOf :: "rawInputs \<Rightarrow> string" where
  "modeOf raw = cfgDeploymentMode (resolve raw)"

definition domainNameRequired :: error where
  "domainNameRequired =
     Error ''domainName is required. Set via context or DOMAIN_NAME environment variable.''"

definition adminPasswordRequired :: error where
  "adminPasswordRequired =
     Error ''adminPassword is required. Set via context or ADMIN_PASSWORD environment variable.''"

definition efsFileSystemIdRequired :: error where
  "efsFileSystemIdRequired =
     Error ''efsFileSystemId is required for application-only mode. Set via context or EFS_FILE_SYSTEM_ID environment variable.''"

definition invalidDeploymentMode :: "string \<Rightarrow> error" where
  "invalidDeploymentMode m =
     Error (''Invalid deployment mode: '' @ m @
            ''. Use 'complete', 'infrastructure-only', or 'application-only'.'')"



section \<open>Concrete inputs\<close>

definition noInputs :: rawInputs where
  "noInputs = \<lparr>context = Map.empty, env = Map.empty\<rparr>"



definition appOnlyEmptyEfs :: rawInputs where
  "appOnlyEmptyEfs =
     \<lparr>context = map_of [(''deploymentMode'', ''application-only''), (''domainName'', ''x.example.com''),
                         (''adminPassword'', ''p''), (''efsFileSystemId'', [])],
      env = Map.empty\<rparr>"

definition appOnlyNothingElse :: rawInputs where
  "appOnlyNothingElse =
     \<lparr>context = map_of [(''deploymentMode'', ''application-only''), (''efsFileSystemId'', [])],
      env = Map.empty\<rparr>"

definition passwordOnly :: rawInputs where
  "passwordOnly = \<lparr>context = Map.empty, env = map_of [(''ADMIN_PASSWORD'', ''p'')]\<rparr>"

definition domainOnly :: rawInputs where
  "domainOnly = \<lparr>context = Map.empty, env = map_of [(''DOMAIN_NAME'', ''x.example.com'')]\<rparr>"

definition bogusMode :: rawInputs where
  "bogusMode =
     \<lparr>context = map_of [(''deploymentMode'', ''staging'')],
      env = map_of [(''DOMAIN_NAME'', ''x.example.com''), (''ADMIN_PASSWORD'', ''p'')]\<rparr>"

definition bogusModeNothingElse :: rawInputs where
  "bogusModeNothingElse = \<lparr>context = map_of [(''deploymentMode'', ''staging'')], env = Map.empty\<rparr>"



definition host1 :: host where
  "host1 = \<lparr>dateNow = 1700000000000, random1 = ''k3j9x0q1z8a'', random2 = ''p7w2m5v4c6b''\<rparr>"


section \<open>Properties\<close>

subsection \<open>The merge and the checks of the entry script\<close>

lemma truthy_nonEmpty: "truthy v = nonEmpty v"
  by (cases v) (auto simp: truthy_def nonEmpty_def split: list.splits)

lemma truthy_jsOr: "truthy (jsOr a b) = (nonEmpty a \<or> nonEmpty b)"
  by (simp add: jsOr_def truthy_nonEmpty)

lemma domainName_supplied:
  "truthy (cfgDomainName (resolve raw)) = supplied raw ''domainName'' ''DOMAIN_NAME''"
  by (simp add: resolve_def Let_def truthy_jsOr supplied_def)

lemma adminPassword_supplied:
  "truthy (cfgAdminPassword (resolve raw)) = supplied raw ''adminPassword'' ''ADMIN_PASSWORD''"
  by (simp add: resolve_def Let_def truthy_jsOr supplied_def)

lemma efsFileSystemId_supplied:
  "truthy (cfgEfsFileSystemId (resolve raw)) = supplied raw ''efsFileSystemId'' ''EFS_FILE_SYSTEM_ID''"
  by (simp add: resolve_def Let_def truthy_jsOr supplied_def)


lemma cdkApp_no_domainName:
  "\<not> supplied raw ''domainName'' ''DOMAIN_NAME'' \<Longrightarrow> cdkApp raw h = Inl domainNameRequired"
  by (simp add: cdkApp_def Let_def domainName_supplied domainNameRequired_def)

lemma cdkApp_no_adminPassword:
  "supplied raw ''domainName'' ''DOMAIN_NAME'' \<Longrightarrow> \<not> supplied raw ''adminPassword'' ''ADMIN_PASSWORD''
   \<Longrightarrow> cdkApp raw h = Inl adminPasswordRequired"
  by (simp add: cdkApp_def Let_def domainName_supplied adminPassword_supplied
      adminPasswordRequired_def)

lemma cdkApp_checked:
  assumes "supplied raw ''domainName'' ''DOMAIN_NAME''"
    and "supplied raw ''adminPassword'' ''ADMIN_PASSWORD''"
  shows "cdkApp raw h =
     (if modeOf raw = ''complete'' then
        Inr (McpgwCompleteInfrastructureStack ''McpgwCompleteInfrastructureStack''
               (infrastructureProps (resolve raw) (env raw) None
                  ''Complete MCP Gateway Registry Infrastructure (VPC + EKS + EFS + Certificate + Cognito + Application)'')
               h)
      else if modeOf raw = ''infrastructure-only'' then
        Inr (McpgwCompleteInfrastructureStack ''McpgwInfrastructureStackFresh''
               (infrastructureProps (resolve raw) (env raw) (Some False)
                  ''MCP Gateway Registry Infrastructure Only (VPC + EKS + EFS + Certificate + Cognito)'')
               h)
      else if modeOf raw = ''application-only'' then
        (if \<not> supplied raw ''efsFileSystemId'' ''EFS_FILE_SYSTEM_ID'' then Inl efsFileSystemIdRequired
         else McpgwMicroservicesCdkStack ''McpgwMicroservicesCdkStack''
                (microservicesProps (resolve raw) (env raw)) (env raw) h)
      else Inl (invalidDeploymentMode (modeOf raw)))"
  using assms
  by (simp add: cdkApp_def Let_def domainName_supplied adminPassword_supplied
      efsFileSystemId_supplied modeOf_def efsFileSystemIdRequired_def invalidDeploymentMode_def)

lemma cdkApp_fails_early:
  "\<not> (supplied raw ''domainName'' ''DOMAIN_NAME'' \<and> supplied raw ''adminPassword'' ''ADMIN_PASSWORD'')
   \<Longrightarrow> isl (cdkApp raw h)"
proof (cases "supplied raw ''domainName'' ''DOMAIN_NAME''")
  case True
  assume "\<not> (supplied raw ''domainName'' ''DOMAIN_NAME'' \<and> supplied raw ''adminPassword'' ''ADMIN_PASSWORD'')"
  with True have "\<not> supplied raw ''adminPassword'' ''ADMIN_PASSWORD''" by simp
  with True show ?thesis by (simp add: cdkApp_no_adminPassword)
next
  case False
  then show ?thesis by (simp add: cdkApp_no_domainName)
qed

lemmas input_simps =
  resolve_def modeOf_def supplied_def nonEmpty_def jsOr_def truthy_def orDefault_def Let_def

text \<open>
  C5 (amended). With no non-empty \<^verbatim>\<open>domainName\<close> in the context or the environment the
  script throws the error that names \<^verbatim>\<open>domainName\<close>, in every mode. With a
  \<^verbatim>\<open>domainName\<close> and no non-empty \<^verbatim>\<open>adminPassword\<close> it throws the error that names
  \<^verbatim>\<open>adminPassword\<close>. Either way the run ends before a stack is constructed.
\<close>

theorem C5_required_parameters:
  "(\<not> supplied raw ''domainName'' ''DOMAIN_NAME'' \<longrightarrow> cdkApp raw h = Inl domainNameRequired) \<and>
   (supplied raw ''domainName'' ''DOMAIN_NAME'' \<and> \<not> supplied raw ''adminPassword'' ''ADMIN_PASSWORD''
      \<longrightarrow> cdkApp raw h = Inl adminPasswordRequired)"
  by (simp add: cdkApp_no_domainName cdkApp_no_adminPassword)

theorem C5_required_parameters_witness:
  "modeOf passwordOnly = ''complete'' \<and> \<not> supplied passwordOnly ''domainName'' ''DOMAIN_NAME'' \<and>
   cdkApp passwordOnly host1 = Inl domainNameRequired \<and>
   modeOf domainOnly = ''complete'' \<and> supplied domainOnly ''domainName'' ''DOMAIN_NAME'' \<and>
   \<not> supplied domainOnly ''adminPassword'' ''ADMIN_PASSWORD'' \<and>
   cdkApp domainOnly host1 = Inl adminPasswordRequired"
  using C5_required_parameters [of passwordOnly host1] C5_required_parameters [of domainOnly host1]
  by (simp add: passwordOnly_def domainOnly_def input_simps)

text \<open>
  C5 as stated fails for \<^verbatim>\<open>adminPassword\<close>: in complete mode with neither parameter
  supplied, the error thrown names \<^verbatim>\<open>domainName\<close>, not \<^verbatim>\<open>adminPassword\<close>.
\<close>

theorem C5_counterexample:
  "modeOf noInputs = ''complete'' \<and> \<not> supplied noInputs ''adminPassword'' ''ADMIN_PASSWORD'' \<and>
   cdkApp noInputs host1 = Inl domainNameRequired \<and>
   cdkApp noInputs host1 \<noteq> Inl adminPasswordRequired"
proof -
  have "\<not> supplied noInputs ''domainName'' ''DOMAIN_NAME''"
    by (simp add: noInputs_def input_simps)
  then have "cdkApp noInputs host1 = Inl domainNameRequired"
    by (rule cdkApp_no_domainName)
  then show ?thesis
    by (simp add: noInputs_def input_simps domainNameRequired_def adminPasswordRequired_def)
qed

text \<open>
  C4 (amended). In application-only mode with no non-empty \<^verbatim>\<open>efsFileSystemId\<close> (absent, or
  the empty string) the run fails and constructs no stack; when \<^verbatim>\<open>domainName\<close> and
  \<^verbatim>\<open>adminPassword\<close> are supplied, the error is the one that names \<^verbatim>\<open>efsFileSystemId\<close>.
\<close>

theorem C4_application_only_needs_efs:
  "modeOf raw = ''application-only'' \<and> \<not> supplied raw ''efsFileSystemId'' ''EFS_FILE_SYSTEM_ID'' \<longrightarrow>
     isl (cdkApp raw h) \<and>
     (supplied raw ''domainName'' ''DOMAIN_NAME'' \<and> supplied raw ''adminPassword'' ''ADMIN_PASSWORD''
        \<longrightarrow> cdkApp raw h = Inl efsFileSystemIdRequired)"
proof (intro impI, elim conjE)
  assume m: "modeOf raw = ''application-only''"
    and e: "\<not> supplied raw ''efsFileSystemId'' ''EFS_FILE_SYSTEM_ID''"
  have both: "cdkApp raw h = Inl efsFileSystemIdRequired"
    if "supplied raw ''domainName'' ''DOMAIN_NAME''" "supplied raw ''adminPassword'' ''ADMIN_PASSWORD''"
    using cdkApp_checked [OF that, of h] m e by simp
  show "isl (cdkApp raw h) \<and>
     (supplied raw ''domainName'' ''DOMAIN_NAME'' \<and> supplied raw ''adminPassword'' ''ADMIN_PASSWORD''
        \<longrightarrow> cdkApp raw h = Inl efsFileSystemIdRequired)"
  proof (cases "supplied raw ''domainName'' ''DOMAIN_NAME'' \<and> supplied raw ''adminPassword'' ''ADMIN_PASSWORD''")
    case True
    then show ?thesis using both by simp
  next
    case False
    then show ?thesis using cdkApp_fails_early [of raw h] by blast
  qed
qed

theorem C4_application_only_needs_efs_witness:
  "modeOf appOnlyEmptyEfs = ''application-only'' \<and>
   context appOnlyEmptyEfs ''efsFileSystemId'' = Some [] \<and>
   \<not> supplied appOnlyEmptyEfs ''efsFileSystemId'' ''EFS_FILE_SYSTEM_ID'' \<and>
   supplied appOnlyEmptyEfs ''domainName'' ''DOMAIN_NAME'' \<and>
   supplied appOnlyEmptyEfs ''adminPassword'' ''ADMIN_PASSWORD'' \<and>
   cdkApp appOnlyEmptyEfs host1 = Inl efsFileSystemIdRequired"
  using C4_application_only_needs_efs [of appOnlyEmptyEfs host1]
  by (simp add: appOnlyEmptyEfs_def input_simps)

text \<open>
  C4 as stated fails: in application-only mode with an empty \<^verbatim>\<open>efsFileSystemId\<close> and no
  \<^verbatim>\<open>domainName\<close>, the error thrown names \<^verbatim>\<open>domainName\<close>, not the file system.
\<close>

theorem C4_counterexample:
  "modeOf appOnlyNothingElse = ''application-only'' \<and>
   \<not> supplied appOnlyNothingElse ''efsFileSystemId'' ''EFS_FILE_SYSTEM_ID'' \<and>
   cdkApp appOnlyNothingElse host1 = Inl domainNameRequired \<and>
   cdkApp appOnlyNothingElse host1 \<noteq> Inl efsFileSystemIdRequired"
proof -
  have "\<not> supplied appOnlyNothingElse ''domainName'' ''DOMAIN_NAME''"
    by (simp add: appOnlyNothingElse_def input_simps)
  then have "cdkApp appOnlyNothingElse host1 = Inl domainNameRequired"
    by (rule cdkApp_no_domainName)
  then show ?thesis
    by (simp add: appOnlyNothingElse_def input_simps domainNameRequired_def
        efsFileSystemIdRequired_def)
qed

text \<open>
  C8 (amended). When the merged mode is none of \<^verbatim>\<open>complete\<close>, \<^verbatim>\<open>infrastructure-only\<close>,
  \<^verbatim>\<open>application-only\<close>, the run fails and constructs no stack; when \<^verbatim>\<open>domainName\<close> and
  \<^verbatim>\<open>adminPassword\<close> are supplied, the error is the one that names the mode.
\<close>

theorem C8_invalid_mode:
  "modeOf raw \<noteq> ''complete'' \<and> modeOf raw \<noteq> ''infrastructure-only'' \<and>
   modeOf raw \<noteq> ''application-only'' \<longrightarrow>
     isl (cdkApp raw h) \<and>
     (supplied raw ''domainName'' ''DOMAIN_NAME'' \<and> supplied raw ''adminPassword'' ''ADMIN_PASSWORD''
        \<longrightarrow> cdkApp raw h = Inl (invalidDeploymentMode (modeOf raw)))"
proof (intro impI, elim conjE)
  assume m: "modeOf raw \<noteq> ''complete''" "modeOf raw \<noteq> ''infrastructure-only''"
    "modeOf raw \<noteq> ''application-only''"
  have both: "cdkApp raw h = Inl (invalidDeploymentMode (modeOf raw))"
    if "supplied raw ''domainName'' ''DOMAIN_NAME''" "supplied raw ''adminPassword'' ''ADMIN_PASSWORD''"
    using cdkApp_checked [OF that, of h] m by simp
  show "isl (cdkApp raw h) \<and>
     (supplied raw ''domainName'' ''DOMAIN_NAME'' \<and> supplied raw ''adminPassword'' ''ADMIN_PASSWORD''
        \<longrightarrow> cdkApp raw h = Inl (invalidDeploymentMode (modeOf raw)))"
  proof (cases "supplied raw ''domainName'' ''DOMAIN_NAME'' \<and> supplied raw ''adminPassword'' ''ADMIN_PASSWORD''")
    case True
    then show ?thesis using both by simp
  next
    case False
    then show ?thesis using cdkApp_fails_early [of raw h] by blast
  qed
qed

theorem C8_invalid_mode_witness:
  "modeOf bogusMode = ''staging'' \<and>
   supplied bogusMode ''domainName'' ''DOMAIN_NAME'' \<and>
   supplied bogusMode ''adminPassword'' ''ADMIN_PASSWORD'' \<and>
   cdkApp bogusMode host1 =
     Inl (Error ''Invalid deployment mode: staging. Use 'complete', 'infrastructure-only', or 'application-only'.'')"
  using C8_invalid_mode [of bogusMode host1]
  by (simp add: bogusMode_def input_simps invalidDeploymentMode_def)

text \<open>
  C8 as stated fails: with the mode \<^verbatim>\<open>staging\<close> and no \<^verbatim>\<open>domainName\<close>, the error
  thrown names \<^verbatim>\<open>domainName\<close>, not the mode.
\<close>

theorem C8_counterexample:
  "modeOf bogusModeNothingElse = ''staging'' \<and>
   cdkApp bogusModeNothingElse host1 = Inl domainNameRequired \<and>
   cdkApp bogusModeNothingElse host1 \<noteq> Inl (invalidDeploymentMode ''staging'')"
proof -
  have "\<not> supplied bogusModeNothingElse ''domainName'' ''DOMAIN_NAME''"
    by (simp add: bogusModeNothingElse_def input_simps)
  then have "cdkApp bogusModeNothingElse host1 = Inl domainNameRequired"
    by (rule cdkApp_no_domainName)
  then show ?thesis
    by (simp add: bogusModeNothingElse_def input_simps domainNameRequired_def
        invalidDeploymentMode_def)
qed

subsection \<open>The shape of the stacks\<close>













subsection \<open>The skeleton of each part of a stack\<close>



lemmas infrastructure_defs =
  createVpc_def createEfsFileSystem_def createEksCluster_def createCognitoUserPool_def
  installManagedAddons_def installMetricsServer_def installExternalDns_def
  installCoreEksAddons_def installAwsLoadBalancerController_def installEfsCsiDriver_def
  clusterNameTok_def efsFileSystemIdTok_def indexed_def


lemma logicalName_mk [simp]: "logicalName (mk n t objs p) = n"
  and rtype_mk [simp]: "rtype (mk n t objs p) = t"
  and payload_mk [simp]: "payload (mk n t objs p) = p"
  by (simp_all add: mk_def)

lemma skeleton_mk [simp]: "skeleton (mk n t objs p) = (n, t, objs @ concat (map (refs \<circ> snd) p))"
  by (simp add: skeleton_def mk_def)

lemma refs_indexed [simp]: "concat (map (refs \<circ> snd) (indexed k xs)) = []"
  by (simp add: indexed_def split_def)

lemma refs_efsVolume [simp]: "concat (map (refs \<circ> snd) (efsVolume v)) = []"
  by (cases "pvalTruthy v") (simp_all add: efsVolume_def)









subsection \<open>Looking a declaration up\<close>

lemma fst_skeleton [simp]: "fst (skeleton d) = logicalName d"
  by (simp add: skeleton_def)



















subsection \<open>The certificate of each stack\<close>






subsection \<open>Accepted inputs\<close>


lemma infrastructureProps_fields [simp]:
  "certificateArn (infrastructureProps c penv a d) = cfgCertificateArn c"
  "domainName (infrastructureProps c penv a d) = jsString (cfgDomainName c)"
  "maxAzs (infrastructureProps c penv a d) = Some (cfgMaxAzs c)"
  "deployApplications (infrastructureProps c penv a d) = a"
  by (simp_all add: infrastructureProps_def)

lemma microservicesProps_fields [simp]:
  "certificateArn (microservicesProps c penv) = cfgCertificateArn c"
  "domainName (microservicesProps c penv) = jsString (cfgDomainName c)"
  "createCertificate (microservicesProps c penv) =
     (cfgCreateCertificate c \<or> \<not> truthy (cfgCertificateArn c))"
  by (simp_all add: microservicesProps_def)










subsection \<open>The stacks and the \<^verbatim>\<open>createCertificate\<close> flag\<close>









subsection \<open>Volume claims\<close>

lemma payload_addManifest [simp]: "payload (addManifest c n p) = p"
  by (simp add: addManifest_def)

lemma claimsOf_plain:
  "claimsOf (mk n t objs []) = []"
  "claimsOf (addHelmChart c n p) = claimsOf (mk n' HelmChart [] p)"
  "claimsOf (addServiceAccount c n p) = claimsOf (mk n' HelmChart [] p)"
  "claimsOf (addFargateProfile c n p) = claimsOf (mk n' HelmChart [] p)"
  "claimsOf (cfnOutput n v d) = []"
  by (simp_all add: claimsOf_def addHelmChart_def addServiceAccount_def addFargateProfile_def
      cfnOutput_def claimNameKey_def)















subsection \<open>What the clock and the random generator reach\<close>





















subsection \<open>The two modes of the infrastructure stack\<close>














end
